theory Spec2Isabelle
  imports Main "HOL-Library.Sublist"
begin

section \<open>The WandererKills WebSocket client (examples/websocket\_client.py)\<close>

subsection \<open>JSON values and the Python operations the client applies to them\<close>

text \<open>
  The values \<open>json.loads\<close> produces and \<open>json.dumps\<close> consumes. Python's \<open>None\<close> is
  JSON \<open>null\<close>, so \<open>JNull\<close> stands for both. A dict is an association list read with
  \<open>map_of\<close>. Floating-point numbers are not modelled.
\<close>

datatype json =
    JNull
  | JBool bool
  | JInt int
  | JStr string
  | JList "json list"
  | JObj "(string \<times> json) list"

text \<open>
  The exceptions the client can meet. \<open>NotConnected\<close> is
  \<open>Exception("Not connected to WebSocket")\<close>, \<open>JoinFailed r\<close> is
  \<open>Exception(f"Failed to join channel: {r}")\<close>, \<open>OpenFailed\<close> is whatever
  \<open>websockets.connect\<close> raises.
\<close>

datatype error =
    NotConnected
  | JoinFailed json
  | OpenFailed string
  | ConnectionClosed
  | JSONDecodeError string
  | AttributeError
  | TypeError
  | KeyError string

text \<open>\<open>d.get(k, default)\<close>: only a dict has \<open>get\<close>.\<close>

fun py_get :: "json \<Rightarrow> string \<Rightarrow> json \<Rightarrow> error + json" where
  "py_get (JObj d) k dflt = Inr (case map_of d k of None \<Rightarrow> dflt | Some v \<Rightarrow> v)"
| "py_get _ k dflt = Inl AttributeError"

text \<open>\<open>d[k]\<close> with a string key.\<close>

fun py_item :: "json \<Rightarrow> string \<Rightarrow> error + json" where
  "py_item (JObj d) k = (case map_of d k of None \<Rightarrow> Inl (KeyError k) | Some v \<Rightarrow> Inr v)"
| "py_item _ k = Inl TypeError"

text \<open>\<open>len(x)\<close>.\<close>

fun py_len :: "json \<Rightarrow> error + nat" where
  "py_len (JStr s) = Inr (length s)"
| "py_len (JList xs) = Inr (length xs)"
| "py_len (JObj d) = Inr (length d)"
| "py_len _ = Inl TypeError"

text \<open>\<open>for x in v\<close>: a list yields its elements, a string its characters, a dict its keys.\<close>

fun py_iter :: "json \<Rightarrow> error + json list" where
  "py_iter (JList xs) = Inr xs"
| "py_iter (JStr s) = Inr (map (\<lambda>c. JStr [c]) s)"
| "py_iter (JObj d) = Inr (map (\<lambda>kv. JStr (fst kv)) d)"
| "py_iter _ = Inl TypeError"

text \<open>Truth value of \<open>if x:\<close>.\<close>

fun py_truthy :: "json \<Rightarrow> bool" where
  "py_truthy JNull = False"
| "py_truthy (JBool b) = b"
| "py_truthy (JInt n) = (n \<noteq> 0)"
| "py_truthy (JStr s) = (s \<noteq> [])"
| "py_truthy (JList xs) = (xs \<noteq> [])"
| "py_truthy (JObj d) = (d \<noteq> [])"

text \<open>\<open>s.replace(old, new)\<close>: every non-overlapping occurrence, left to right.\<close>

function str_replace :: "string \<Rightarrow> string \<Rightarrow> string \<Rightarrow> string" where
  "str_replace [] old new = (if old = [] then new else [])"
| "str_replace (c # cs) old new =
     (if old = [] then new @ c # str_replace cs old new
      else if take (length old) (c # cs) = old
        then new @ str_replace (drop (length old) (c # cs)) old new
      else c # str_replace cs old new)"
  by pat_completeness auto
termination
  by (relation "measure (\<lambda>(s, old, new). length s)") auto

subsection \<open>The transport\<close>

text \<open>
  The connection object of the \<open>websockets\<close> library, as a scripted peer: \<open>inbox\<close> holds the
  text frames the peer will deliver, in order, and the peer closes the connection after the
  last of them; \<open>outbox\<close> holds the message dicts handed to \<open>send(json.dumps(...))\<close>, in
  send order. Sending or receiving on a closed connection raises \<open>ConnectionClosed\<close>.
\<close>

record transport =
  is_open :: bool
  outbox :: "json list"
  inbox :: "string list"

definition ws_send :: "transport \<Rightarrow> json \<Rightarrow> error + transport" where
  "ws_send t m = (if is_open t then Inr (t\<lparr>outbox := outbox t @ [m]\<rparr>) else Inl ConnectionClosed)"

text \<open>\<open>recv\<close>: \<open>None\<close> when it raises \<open>ConnectionClosed\<close>, the only exception it has here.\<close>

definition ws_recv :: "transport \<Rightarrow> string option \<times> transport" where
  "ws_recv t =
     (if is_open t then
        (case inbox t of
           [] \<Rightarrow> (None, t\<lparr>is_open := False\<rparr>)
         | m # ms \<Rightarrow> (Some m, t\<lparr>inbox := ms\<rparr>))
      else (None, t))"

definition ws_close :: "transport \<Rightarrow> transport" where
  "ws_close t = t\<lparr>is_open := False\<rparr>"

subsection \<open>The logger\<close>

text \<open>
  What the module logger is asked to print, as structured entries instead of formatted text.
  \<open>logging.basicConfig(level=logging.INFO)\<close> drops the \<open>DEBUG\<close> entries.
\<close>

datatype level = DEBUG | INFO | WARNING | ERROR

datatype event =
    Connecting string
  | Connected
  | SubscriptionId json
  | ConnectionFailed error
  | ConnectionClosedWarning
  | DecodeFailed error
  | HandlingFailed error
  | NewKillmails json
  | KillmailCount nat
  | KillmailTimestamp json
  | KillmailId nat json
  | Victim json json
  | Attackers nat
  | KillCountUpdate json json
  | CommandOk json json
  | CommandFailed json json
  | Subscribed "int list"
  | TotalSubscriptions nat
  | Unsubscribed "int list"
  | RemainingSubscriptions nat
  | Disconnected

subsection \<open>The client\<close>

text \<open>
  The attributes of \<open>WandererKillsClient\<close>, and the log written so far. \<open>subscription_id\<close>
  holds whatever \<open>payload.get("subscription_id")\<close> returned. A Python set is finite; only
  the counts that are logged depend on it.
\<close>

record client =
  server_url :: string
  websocket :: "transport option"
  subscriptions :: "int set"
  subscription_id :: json
  running :: bool
  logged :: "(level \<times> event) list"

type_synonym 'a result = "(error + 'a) \<times> client"

definition logger :: "level \<Rightarrow> event \<Rightarrow> client \<Rightarrow> client" where
  "logger lvl ev s = (if lvl = DEBUG then s else s\<lparr>logged := logged s @ [(lvl, ev)]\<rparr>)"

definition init :: "string \<Rightarrow> client" where
  "init url =
     \<lparr>server_url = str_replace (str_replace url ''http://'' ''ws://'') ''https://'' ''wss://'',
      websocket = None,
      subscriptions = {},
      subscription_id = JNull,
      running = False,
      logged = []\<rparr>"

definition message :: "string \<Rightarrow> json \<Rightarrow> int \<Rightarrow> json" where
  "message ev payload ref =
     JObj [(''topic'', JStr ''killmails:lobby''), (''event'', JStr ev),
           (''payload'', payload), (''ref'', JInt ref)]"

definition join_message :: json where
  "join_message = message ''phx_join'' (JObj []) 1"

definition subscribe_message :: "int list \<Rightarrow> json" where
  "subscribe_message system_ids =
     message ''subscribe_systems'' (JObj [(''systems'', JList (map JInt system_ids))]) 2"

definition unsubscribe_message :: "int list \<Rightarrow> json" where
  "unsubscribe_message system_ids =
     message ''unsubscribe_systems'' (JObj [(''systems'', JList (map JInt system_ids))]) 3"

definition status_message :: json where
  "status_message = message ''get_status'' (JObj []) 4"

definition leave_message :: json where
  "leave_message = message ''phx_leave'' (JObj []) 5"

text \<open>The \<open>except Exception\<close> clause of \<open>connect\<close>: log and re-raise.\<close>

definition connect_failed :: "error \<Rightarrow> client \<Rightarrow> json result" where
  "connect_failed e s = (Inl e, logger ERROR (ConnectionFailed e) s)"

text \<open>
  The test \<open>response_data.get("event") == "phx_reply" and
  response_data.get("payload", {}).get("status") == "ok"\<close>; the second conjunct is
  evaluated only when the first holds.
\<close>

definition join_accepted :: "json \<Rightarrow> error + bool" where
  "join_accepted response_data =
     (case py_get response_data ''event'' JNull of
        Inl e \<Rightarrow> Inl e
      | Inr ev \<Rightarrow>
          if ev = JStr ''phx_reply'' then
            (case py_get response_data ''payload'' (JObj []) of
               Inl e \<Rightarrow> Inl e
             | Inr pl \<Rightarrow>
                 (case py_get pl ''status'' JNull of
                    Inl e \<Rightarrow> Inl e
                  | Inr st \<Rightarrow> Inr (st = JStr ''ok'')))
          else Inr False)"

text \<open>The success branch of \<open>connect\<close>, lines 66 to 74.\<close>

definition connect_joined :: "json \<Rightarrow> client \<Rightarrow> json result" where
  "connect_joined response_data s =
     (case py_item response_data ''payload'' of
        Inl e \<Rightarrow> connect_failed e s
      | Inr pl \<Rightarrow>
          (case py_item pl ''response'' of
             Inl e \<Rightarrow> connect_failed e s
           | Inr payload \<Rightarrow>
               (case py_get payload ''subscription_id'' JNull of
                  Inl e \<Rightarrow> connect_failed e s
                | Inr sid \<Rightarrow>
                    (Inr payload,
                     logger INFO (SubscriptionId sid)
                       (logger INFO Connected (s\<lparr>subscription_id := sid\<rparr>))))))"

text \<open>
  \<open>connect\<close>. \<open>dial\<close> is \<open>websockets.connect\<close>, \<open>loads\<close> is \<open>json.loads\<close> (\<open>None\<close> when it
  raises \<open>JSONDecodeError\<close>). \<open>asyncio.create_task(self._listen_for_messages())\<close> only
  schedules the listener, which is the separate operation \<open>listen_for_messages\<close> below.
\<close>

definition socket_uri :: "client \<Rightarrow> string" where
  "socket_uri s =
     server_url s @ ''/socket/websocket?vsn=2.0.0&client_identifier='' @ ''python_example_client''"

definition connect ::
  "(string \<Rightarrow> json option) \<Rightarrow> (string \<Rightarrow> error + transport) \<Rightarrow> client \<Rightarrow> json result" where
  "connect loads dial s =
     (let uri = socket_uri s;
          s1 = logger INFO (Connecting uri) s
      in case dial uri of
           Inl e \<Rightarrow> connect_failed e s1
         | Inr t \<Rightarrow>
             (let s2 = s1\<lparr>websocket := Some t, running := True\<rparr>
              in case ws_send t join_message of
                   Inl e \<Rightarrow> connect_failed e s2
                 | Inr t1 \<Rightarrow>
                     (case ws_recv t1 of
                        (None, t2) \<Rightarrow>
                          connect_failed ConnectionClosed (s2\<lparr>websocket := Some t2\<rparr>)
                      | (Some response, t2) \<Rightarrow>
                          (let s3 = s2\<lparr>websocket := Some t2\<rparr>
                           in case loads response of
                                None \<Rightarrow> connect_failed (JSONDecodeError response) s3
                              | Some response_data \<Rightarrow>
                                  (case join_accepted response_data of
                                     Inl e \<Rightarrow> connect_failed e s3
                                   | Inr True \<Rightarrow> connect_joined response_data s3
                                   | Inr False \<Rightarrow>
                                       connect_failed (JoinFailed response_data) s3)))))"

text \<open>
  \<open>subscribe_to_systems\<close>. The returned \<open>list(self.subscriptions)\<close> has no specified order,
  so the result is the set.
\<close>

definition subscribe_to_systems :: "int list \<Rightarrow> client \<Rightarrow> int set result" where
  "subscribe_to_systems system_ids s =
     (case websocket s of
        None \<Rightarrow> (Inl NotConnected, s)
      | Some t \<Rightarrow>
          if running s then
            (case ws_send t (subscribe_message system_ids) of
               Inl e \<Rightarrow> (Inl e, s)
             | Inr t1 \<Rightarrow>
                 (let s1 = s\<lparr>websocket := Some t1,
                              subscriptions := subscriptions s \<union> set system_ids\<rparr>;
                      s2 = logger INFO (Subscribed system_ids) s1;
                      s3 = logger INFO (TotalSubscriptions (card (subscriptions s2))) s2
                  in (Inr (subscriptions s3), s3)))
          else (Inl NotConnected, s))"

definition unsubscribe_from_systems :: "int list \<Rightarrow> client \<Rightarrow> int set result" where
  "unsubscribe_from_systems system_ids s =
     (case websocket s of
        None \<Rightarrow> (Inl NotConnected, s)
      | Some t \<Rightarrow>
          if running s then
            (case ws_send t (unsubscribe_message system_ids) of
               Inl e \<Rightarrow> (Inl e, s)
             | Inr t1 \<Rightarrow>
                 (let s1 = s\<lparr>websocket := Some t1,
                              subscriptions := subscriptions s - set system_ids\<rparr>;
                      s2 = logger INFO (Unsubscribed system_ids) s1;
                      s3 = logger INFO (RemainingSubscriptions (card (subscriptions s2))) s2
                  in (Inr (subscriptions s3), s3)))
          else (Inl NotConnected, s))"

text \<open>\<open>get_status\<close> returns \<open>(subscription_id, subscribed_systems, connected)\<close>.\<close>

definition get_status :: "client \<Rightarrow> (json \<times> int set \<times> bool) result" where
  "get_status s =
     (case websocket s of
        None \<Rightarrow> (Inl NotConnected, s)
      | Some t \<Rightarrow>
          if running s then
            (case ws_send t status_message of
               Inl e \<Rightarrow> (Inl e, s)
             | Inr t1 \<Rightarrow>
                 (let s1 = s\<lparr>websocket := Some t1\<rparr>
                  in (Inr (subscription_id s1, subscriptions s1, running s1), s1)))
          else (Inl NotConnected, s))"

text \<open>
  \<open>disconnect\<close>. The bare \<open>except: pass\<close> swallows a failed \<open>send\<close>, in which case \<open>close\<close>
  is not reached.
\<close>

definition disconnect :: "client \<Rightarrow> unit result" where
  "disconnect s =
     (let s1 = s\<lparr>running := False\<rparr>;
          s2 = (case websocket s1 of
                  None \<Rightarrow> s1
                | Some t \<Rightarrow>
                    (case ws_send t leave_message of
                       Inl e \<Rightarrow> s1
                     | Inr t1 \<Rightarrow> s1\<lparr>websocket := Some (ws_close t1)\<rparr>))
      in (Inr (), logger INFO Disconnected s2))"

subsection \<open>Observing a session\<close>

text \<open>The frames sent so far on the session's connection, and the \<open>ref\<close> of a frame.\<close>

definition sent :: "client \<Rightarrow> json list" where
  "sent s = (case websocket s of None \<Rightarrow> [] | Some t \<Rightarrow> outbox t)"

definition frame_ref :: "json \<Rightarrow> json" where
  "frame_ref m = (case py_get m ''ref'' JNull of Inl e \<Rightarrow> JNull | Inr r \<Rightarrow> r)"

text \<open>
  A caller issuing subscribe and unsubscribe calls one after the other, as \<open>example\<close> does.
\<close>

datatype call = Subscribe "int list" | Unsubscribe "int list"

fun issue :: "call \<Rightarrow> client \<Rightarrow> int set result" where
  "issue (Subscribe system_ids) s = subscribe_to_systems system_ids s"
| "issue (Unsubscribe system_ids) s = unsubscribe_from_systems system_ids s"

fun issue_all :: "call list \<Rightarrow> client \<Rightarrow> client" where
  "issue_all [] s = s"
| "issue_all (c # cs) s = issue_all cs (snd (issue c s))"

text \<open>
  The specification's side of the tracking invariant: set union for a subscribe, set
  difference for an unsubscribe, folded over the calls in order.
\<close>

fun tracked :: "int set \<Rightarrow> call \<Rightarrow> int set" where
  "tracked keys (Subscribe system_ids) = keys \<union> set system_ids"
| "tracked keys (Unsubscribe system_ids) = keys - set system_ids"

subsection \<open>A scripted peer\<close>

text \<open>
  A peer for concrete runs. Its frames are named by short texts standing for the JSON they
  carry; every other text fails to decode. \<open>mock_dial frames\<close> opens a connection on which
  the peer delivers \<open>frames\<close>.
\<close>

definition join_ok_reply :: json where
  "join_ok_reply =
     JObj [(''topic'', JStr ''killmails:lobby''), (''event'', JStr ''phx_reply''),
           (''payload'', JObj [(''status'', JStr ''ok''),
                               (''response'', JObj [(''subscription_id'', JStr ''sub-1'')])]),
           (''ref'', JInt 1)]"

definition join_error_reply :: json where
  "join_error_reply =
     JObj [(''topic'', JStr ''killmails:lobby''), (''event'', JStr ''phx_reply''),
           (''payload'', JObj [(''status'', JStr ''error''),
                               (''response'', JObj [(''reason'', JStr ''unauthorized'')])]),
           (''ref'', JInt 1)]"

definition kill_count_frame :: json where
  "kill_count_frame =
     JObj [(''topic'', JStr ''killmails:lobby''), (''event'', JStr ''kill_count_update''),
           (''payload'', JObj [(''system_id'', JInt 30000142), (''count'', JInt 3)]),
           (''ref'', JNull)]"

definition mock_loads :: "string \<Rightarrow> json option" where
  "mock_loads text =
     (if text = ''join_ok'' then Some join_ok_reply
      else if text = ''join_error'' then Some join_error_reply
      else if text = ''kill_count'' then Some kill_count_frame
      else None)"

definition mock_dial :: "string list \<Rightarrow> string \<Rightarrow> error + transport" where
  "mock_dial frames uri = Inr \<lparr>is_open = True, outbox = [], inbox = frames\<rparr>"

text \<open>
  The session of the example scenario, joined against a peer that accepts the join, and the
  same session when the peer goes on to deliver a frame that does not decode and then a
  \<open>kill_count_update\<close>.
\<close>

definition example_session :: client where
  "example_session =
     snd (connect mock_loads (mock_dial [''join_ok'']) (init ''http://localhost:4004''))"

definition listening_session :: client where
  "listening_session =
     snd (connect mock_loads (mock_dial [''join_ok'', ''garbage'', ''kill_count''])
            (init ''http://localhost:4004''))"

subsection \<open>Inbound messages\<close>

text \<open>The \<open>if victim:\<close> block of the loop over the killmails.\<close>

definition log_victim :: "json \<Rightarrow> client \<Rightarrow> unit result" where
  "log_victim victim s =
     (if py_truthy victim then
        (case py_get victim ''character_name'' (JStr ''Unknown'') of
           Inl e \<Rightarrow> (Inl e, s)
         | Inr victim_name \<Rightarrow>
             (case py_get victim ''ship_type_name'' (JStr ''Unknown ship'') of
                Inl e \<Rightarrow> (Inl e, s)
              | Inr ship_name \<Rightarrow> (Inr (), logger INFO (Victim victim_name ship_name) s)))
      else (Inr (), s))"

text \<open>The \<open>if attackers:\<close> block.\<close>

definition log_attackers :: "json \<Rightarrow> client \<Rightarrow> unit result" where
  "log_attackers attackers s =
     (if py_truthy attackers then
        (case py_len attackers of
           Inl e \<Rightarrow> (Inl e, s)
         | Inr n \<Rightarrow> (Inr (), logger INFO (Attackers n) s))
      else (Inr (), s))"

text \<open>\<open>for i, killmail in enumerate(killmails, 1)\<close>, from index \<open>i\<close> on.\<close>

fun handle_killmails :: "nat \<Rightarrow> json list \<Rightarrow> client \<Rightarrow> unit result" where
  "handle_killmails i [] s = (Inr (), s)"
| "handle_killmails i (killmail # rest) s =
     (case py_get killmail ''killmail_id'' JNull of
        Inl e \<Rightarrow> (Inl e, s)
      | Inr killmail_id \<Rightarrow>
          (case py_get killmail ''victim'' (JObj []) of
             Inl e \<Rightarrow> (Inl e, s)
           | Inr victim \<Rightarrow>
               (case py_get killmail ''attackers'' (JList []) of
                  Inl e \<Rightarrow> (Inl e, s)
                | Inr attackers \<Rightarrow>
                    (case log_victim victim (logger INFO (KillmailId i killmail_id) s) of
                       (Inl e, s1) \<Rightarrow> (Inl e, s1)
                     | (Inr u, s1) \<Rightarrow>
                         (case log_attackers attackers s1 of
                            (Inl e, s2) \<Rightarrow> (Inl e, s2)
                          | (Inr v, s2) \<Rightarrow> handle_killmails (Suc i) rest s2)))))"

definition handle_killmail_update :: "json \<Rightarrow> client \<Rightarrow> unit result" where
  "handle_killmail_update payload s =
     (case py_get payload ''system_id'' JNull of
        Inl e \<Rightarrow> (Inl e, s)
      | Inr system_id \<Rightarrow>
          (case py_get payload ''killmails'' (JList []) of
             Inl e \<Rightarrow> (Inl e, s)
           | Inr killmails \<Rightarrow>
               (case py_get payload ''timestamp'' JNull of
                  Inl e \<Rightarrow> (Inl e, s)
                | Inr timestamp \<Rightarrow>
                    (let s1 = logger INFO (NewKillmails system_id) s
                     in case py_len killmails of
                          Inl e \<Rightarrow> (Inl e, s1)
                        | Inr n \<Rightarrow>
                            (let s2 = logger INFO (KillmailCount n) s1;
                                 s3 = logger INFO (KillmailTimestamp timestamp) s2
                             in case py_iter killmails of
                                  Inl e \<Rightarrow> (Inl e, s3)
                                | Inr xs \<Rightarrow> handle_killmails 1 xs s3)))))"

definition handle_kill_count_update :: "json \<Rightarrow> client \<Rightarrow> unit result" where
  "handle_kill_count_update payload s =
     (case py_get payload ''system_id'' JNull of
        Inl e \<Rightarrow> (Inl e, s)
      | Inr system_id \<Rightarrow>
          (case py_get payload ''count'' JNull of
             Inl e \<Rightarrow> (Inl e, s)
           | Inr count \<Rightarrow> (Inr (), logger INFO (KillCountUpdate system_id count) s)))"

definition handle_reply :: "json \<Rightarrow> json \<Rightarrow> client \<Rightarrow> unit result" where
  "handle_reply msg payload s =
     (case py_get msg ''ref'' JNull of
        Inl e \<Rightarrow> (Inl e, s)
      | Inr ref \<Rightarrow>
          (case py_get payload ''status'' JNull of
             Inl e \<Rightarrow> (Inl e, s)
           | Inr status \<Rightarrow>
               (case py_get payload ''response'' (JObj []) of
                  Inl e \<Rightarrow> (Inl e, s)
                | Inr response \<Rightarrow>
                    if status = JStr ''ok''
                    then (Inr (), logger DEBUG (CommandOk ref response) s)
                    else (Inr (), logger ERROR (CommandFailed ref response) s))))"

text \<open>\<open>_handle_message\<close>: an event that is none of the three is ignored.\<close>

definition handle_message :: "json \<Rightarrow> client \<Rightarrow> unit result" where
  "handle_message msg s =
     (case py_get msg ''event'' JNull of
        Inl e \<Rightarrow> (Inl e, s)
      | Inr ev \<Rightarrow>
          (case py_get msg ''payload'' (JObj []) of
             Inl e \<Rightarrow> (Inl e, s)
           | Inr payload \<Rightarrow>
               if ev = JStr ''killmail_update'' then handle_killmail_update payload s
               else if ev = JStr ''kill_count_update'' then handle_kill_count_update payload s
               else if ev = JStr ''phx_reply'' then handle_reply msg payload s
               else (Inr (), s)))"

subsection \<open>Handling a message only writes to the log\<close>

text \<open>
  \<open>only_logs s s'\<close>: \<open>s'\<close> differs from \<open>s\<close> at most by entries appended to the log.
\<close>

definition only_logs :: "client \<Rightarrow> client \<Rightarrow> bool" where
  "only_logs s s' =
     (server_url s' = server_url s \<and> websocket s' = websocket s \<and>
      subscriptions s' = subscriptions s \<and> subscription_id s' = subscription_id s \<and>
      running s' = running s \<and> prefix (logged s) (logged s'))"

lemma logger_fields [simp]:
  "websocket (logger l e s) = websocket s"
  "subscriptions (logger l e s) = subscriptions s"
  "subscription_id (logger l e s) = subscription_id s"
  "running (logger l e s) = running s"
  "server_url (logger l e s) = server_url s"
  by (simp_all add: logger_def)

lemma only_logs_refl [simp]: "only_logs s s"
  by (simp add: only_logs_def)

lemma only_logs_trans: "only_logs a b \<Longrightarrow> only_logs b c \<Longrightarrow> only_logs a c"
  by (auto simp: only_logs_def)

lemma only_logs_logger [simp]: "only_logs s (logger l e s)"
  by (simp add: only_logs_def logger_def)

lemma only_logs_then_logger: "only_logs s s1 \<Longrightarrow> only_logs s (logger l e s1)"
  by (rule only_logs_trans [OF _ only_logs_logger])

lemma log_victim_only_logs: "only_logs s (snd (log_victim v s))"
  by (simp add: log_victim_def split: sum.splits)

lemma log_attackers_only_logs: "only_logs s (snd (log_attackers a s))"
  by (simp add: log_attackers_def split: sum.splits)

lemma handle_killmails_only_logs: "only_logs s (snd (handle_killmails i xs s))"
proof (induction xs arbitrary: i s)
  case Nil
  show ?case by simp
next
  case (Cons k rest)
  show ?case
  proof (cases "py_get k ''killmail_id'' JNull")
    case (Inl e)
    then show ?thesis by simp
  next
    case kid: (Inr killmail_id)
    show ?thesis
    proof (cases "py_get k ''victim'' (JObj [])")
      case (Inl e)
      with kid show ?thesis by simp
    next
      case vic: (Inr victim)
      show ?thesis
      proof (cases "py_get k ''attackers'' (JList [])")
        case (Inl e)
        with kid vic show ?thesis by simp
      next
        case att: (Inr attackers)
        let ?s0 = "logger INFO (KillmailId i killmail_id) s"
        obtain r1 s1 where v: "log_victim victim ?s0 = (r1, s1)"
          by (cases "log_victim victim ?s0")
        obtain r2 s2 where a: "log_attackers attackers s1 = (r2, s2)"
          by (cases "log_attackers attackers s1")
        have "only_logs ?s0 s1"
          using log_victim_only_logs [of ?s0 victim] v by simp
        then have f1: "only_logs s s1"
          by (rule only_logs_trans [OF only_logs_logger])
        have "only_logs s1 s2"
          using log_attackers_only_logs [of s1 attackers] a by simp
        with f1 have f2: "only_logs s s2"
          by (rule only_logs_trans)
        have f3: "only_logs s (snd (handle_killmails (Suc i) rest s2))"
          by (rule only_logs_trans [OF f2 Cons.IH])
        show ?thesis
          using kid vic att v a f1 f2 f3
          by (cases r1; cases r2) simp_all
      qed
    qed
  qed
qed

lemma handle_killmail_update_only_logs: "only_logs s (snd (handle_killmail_update p s))"
proof -
  have "only_logs s (snd (handle_killmails 1 xs (logger l3 e3 (logger l2 e2 (logger l1 e1 s)))))"
    for xs l1 e1 l2 e2 l3 e3
    by (intro only_logs_trans [OF _ handle_killmails_only_logs] only_logs_then_logger
        only_logs_logger)
  then show ?thesis
    by (simp add: handle_killmail_update_def Let_def only_logs_then_logger split: sum.splits)
qed

lemma handle_kill_count_update_only_logs: "only_logs s (snd (handle_kill_count_update p s))"
  by (simp add: handle_kill_count_update_def split: sum.splits)

lemma handle_reply_only_logs: "only_logs s (snd (handle_reply m p s))"
  by (simp add: handle_reply_def split: sum.splits)

lemma handle_message_only_logs: "only_logs s (snd (handle_message m s))"
  by (simp add: handle_message_def handle_killmail_update_only_logs
      handle_kill_count_update_only_logs handle_reply_only_logs split: sum.splits)

lemma ws_recv_shorter: "ws_recv t = (Some m, t1) \<Longrightarrow> length (inbox t1) < length (inbox t)"
  by (auto simp: ws_recv_def split: if_splits list.splits)

lemma handle_message_websocket:
  "handle_message m s = (r, s1) \<Longrightarrow> websocket s1 = websocket s"
  using handle_message_only_logs [of s m] by (simp add: only_logs_def)

subsection \<open>The receive loop\<close>

text \<open>
  The \<open>while self.running and self.websocket\<close> loop of \<open>_listen_for_messages\<close>. A closed
  connection breaks out of it; a frame that does not decode, or one whose handling raises,
  is logged and the loop goes on.
\<close>

function listen_loop :: "(string \<Rightarrow> json option) \<Rightarrow> client \<Rightarrow> client" where
  "listen_loop loads s =
     (if running s then
        (case websocket s of
           None \<Rightarrow> s
         | Some t \<Rightarrow>
             (case ws_recv t of
                (None, t1) \<Rightarrow> logger WARNING ConnectionClosedWarning (s\<lparr>websocket := Some t1\<rparr>)
              | (Some text, t1) \<Rightarrow>
                  (case loads text of
                     None \<Rightarrow>
                       listen_loop loads
                         (logger ERROR (DecodeFailed (JSONDecodeError text))
                            (s\<lparr>websocket := Some t1\<rparr>))
                   | Some msg \<Rightarrow>
                       (case handle_message msg (s\<lparr>websocket := Some t1\<rparr>) of
                          (Inl e, s1) \<Rightarrow> listen_loop loads (logger ERROR (HandlingFailed e) s1)
                        | (Inr u, s1) \<Rightarrow> listen_loop loads s1))))
      else s)"
  by pat_completeness auto

termination
  by (relation "measure (\<lambda>(loads, s). case websocket s of None \<Rightarrow> 0 | Some t \<Rightarrow> length (inbox t))")
    (auto dest!: ws_recv_shorter [OF sym] handle_message_websocket [OF sym])

text \<open>
  \<open>_listen_for_messages\<close>: the loop, then the \<open>finally\<close> clause. The outer
  \<open>except Exception\<close> is never entered, the inner handlers catching every \<open>Exception\<close>.
\<close>

definition listen_for_messages :: "(string \<Rightarrow> json option) \<Rightarrow> client \<Rightarrow> client" where
  "listen_for_messages loads s = (listen_loop loads s)\<lparr>running := False\<rparr>"

subsection \<open>Steps of the receive loop\<close>

lemma listen_step_malformed:
  assumes "running s" and "websocket s = Some t" and "is_open t" and "inbox t = text # rest"
    and "loads text = None"
  shows "listen_loop loads s =
         listen_loop loads (logger ERROR (DecodeFailed (JSONDecodeError text))
                              (s\<lparr>websocket := Some (t\<lparr>inbox := rest\<rparr>)\<rparr>))"
  using assms by (subst listen_loop.simps) (simp add: ws_recv_def)

lemma listen_step_kill_count:
  assumes "running s" and "websocket s = Some t" and "is_open t" and "inbox t = text # rest"
    and "loads text = Some (JObj kvs)"
    and "map_of kvs ''event'' = Some (JStr ''kill_count_update'')"
    and "map_of kvs ''payload'' = Some (JObj pl)"
  shows "listen_loop loads s =
         listen_loop loads
           (logger INFO (KillCountUpdate (case map_of pl ''system_id'' of None \<Rightarrow> JNull | Some v \<Rightarrow> v)
                                         (case map_of pl ''count'' of None \<Rightarrow> JNull | Some v \<Rightarrow> v))
              (s\<lparr>websocket := Some (t\<lparr>inbox := rest\<rparr>)\<rparr>))"
  using assms
  by (subst listen_loop.simps)
    (simp add: ws_recv_def handle_message_def handle_kill_count_update_def)

lemma listen_step:
  assumes "running s" and "websocket s = Some t" and "is_open t" and "inbox t = text # rest"
  shows "\<exists>s'. listen_loop loads s = listen_loop loads s' \<and> running s' \<and>
              websocket s' = Some (t\<lparr>inbox := rest\<rparr>) \<and>
              subscriptions s' = subscriptions s \<and> subscription_id s' = subscription_id s \<and>
              prefix (logged s) (logged s')"
proof (cases "loads text")
  case None
  from listen_step_malformed [where loads = loads, OF assms None] show ?thesis
    by (intro exI [of _ "logger ERROR (DecodeFailed (JSONDecodeError text))
                              (s\<lparr>websocket := Some (t\<lparr>inbox := rest\<rparr>)\<rparr>)"])
      (simp add: assms logger_def)
next
  case (Some msg)
  let ?s0 = "s\<lparr>websocket := Some (t\<lparr>inbox := rest\<rparr>)\<rparr>"
  obtain r s1 where h: "handle_message msg ?s0 = (r, s1)"
    by (cases "handle_message msg ?s0")
  have o: "only_logs ?s0 s1"
    using handle_message_only_logs [of ?s0 msg] h by simp
  show ?thesis
  proof (cases r)
    case (Inl e)
    have "listen_loop loads s = listen_loop loads (logger ERROR (HandlingFailed e) s1)"
      using assms Some h Inl by (subst listen_loop.simps) (simp add: ws_recv_def)
    moreover have "only_logs ?s0 (logger ERROR (HandlingFailed e) s1)"
      using o by (rule only_logs_then_logger)
    ultimately show ?thesis
      using assms by (intro exI [of _ "logger ERROR (HandlingFailed e) s1"])
        (simp add: only_logs_def)
  next
    case (Inr u)
    have "listen_loop loads s = listen_loop loads s1"
      using assms Some h Inr by (subst listen_loop.simps) (simp add: ws_recv_def)
    then show ?thesis
      using assms o by (intro exI [of _ s1]) (simp add: only_logs_def)
  qed
qed

lemma listen_skip:
  assumes "running s" and "websocket s = Some t" and "is_open t" and "inbox t = pre @ rest"
  shows "\<exists>s'. listen_loop loads s = listen_loop loads s' \<and> running s' \<and>
              websocket s' = Some (t\<lparr>inbox := rest\<rparr>) \<and>
              subscriptions s' = subscriptions s \<and> subscription_id s' = subscription_id s \<and>
              prefix (logged s) (logged s')"
  using assms
proof (induction pre arbitrary: s t)
  case Nil
  then have "t\<lparr>inbox := rest\<rparr> = t" by simp
  with Nil show ?case by (intro exI [of _ s]) simp
next
  case (Cons x pre)
  from Cons.prems have i: "inbox t = x # (pre @ rest)" by simp
  from listen_step [OF Cons.prems(1,2,3) i, of loads]
  obtain s1 where s1: "listen_loop loads s = listen_loop loads s1" "running s1"
    "websocket s1 = Some (t\<lparr>inbox := pre @ rest\<rparr>)"
    "subscriptions s1 = subscriptions s" "subscription_id s1 = subscription_id s"
    "prefix (logged s) (logged s1)"
    by blast
  have o: "is_open (t\<lparr>inbox := pre @ rest\<rparr>)" "inbox (t\<lparr>inbox := pre @ rest\<rparr>) = pre @ rest"
    using Cons.prems(3) by simp_all
  from Cons.IH [OF s1(2) s1(3) o]
  obtain s2 where s2: "listen_loop loads s1 = listen_loop loads s2" "running s2"
    "websocket s2 = Some (t\<lparr>inbox := rest\<rparr>)"
    "subscriptions s2 = subscriptions s1" "subscription_id s2 = subscription_id s1"
    "prefix (logged s1) (logged s2)"
    by auto
  show ?case
    using s1 s2 by (intro exI [of _ s2]) (auto intro: prefix_order.trans)
qed

lemma listen_loop_drained:
  assumes "running s" and "websocket s = Some t" and "is_open t" and "inbox t = []"
  shows "listen_loop loads s =
         logger WARNING ConnectionClosedWarning (s\<lparr>websocket := Some (t\<lparr>is_open := False\<rparr>)\<rparr>)"
  using assms by (subst listen_loop.simps) (simp add: ws_recv_def)

lemma listen_loop_logged:
  assumes "running s" and "websocket s = Some t" and "is_open t"
  shows "prefix (logged s) (logged (listen_loop loads s)) \<and>
         subscriptions (listen_loop loads s) = subscriptions s \<and>
         subscription_id (listen_loop loads s) = subscription_id s"
proof -
  have "inbox t = inbox t @ []" by simp
  from listen_skip [OF assms this, of loads]
  obtain s1 where s1: "listen_loop loads s = listen_loop loads s1" "running s1"
    "websocket s1 = Some (t\<lparr>inbox := []\<rparr>)"
    "subscriptions s1 = subscriptions s" "subscription_id s1 = subscription_id s"
    "prefix (logged s) (logged s1)"
    by blast
  have "listen_loop loads s1 =
      logger WARNING ConnectionClosedWarning (s1\<lparr>websocket := Some (t\<lparr>inbox := [], is_open := False\<rparr>)\<rparr>)"
    using listen_loop_drained [OF s1(2) s1(3), of loads] assms(3) by simp
  with s1 show ?thesis
    by (auto simp: logger_def prefix_def)
qed

subsection \<open>The commands on a running session\<close>

lemma ws_send_open: "is_open t \<Longrightarrow> ws_send t m = Inr (t\<lparr>outbox := outbox t @ [m]\<rparr>)"
  by (simp add: ws_send_def)

lemma subscribe_running:
  assumes "running s" and "websocket s = Some t" and "is_open t"
  shows "subscribe_to_systems ids s =
     (Inr (subscriptions s \<union> set ids),
      logger INFO (TotalSubscriptions (card (subscriptions s \<union> set ids)))
        (logger INFO (Subscribed ids)
          (s\<lparr>websocket := Some (t\<lparr>outbox := outbox t @ [subscribe_message ids]\<rparr>),
             subscriptions := subscriptions s \<union> set ids\<rparr>)))"
  using assms by (simp add: subscribe_to_systems_def ws_send_open Let_def)

lemma unsubscribe_running:
  assumes "running s" and "websocket s = Some t" and "is_open t"
  shows "unsubscribe_from_systems ids s =
     (Inr (subscriptions s - set ids),
      logger INFO (RemainingSubscriptions (card (subscriptions s - set ids)))
        (logger INFO (Unsubscribed ids)
          (s\<lparr>websocket := Some (t\<lparr>outbox := outbox t @ [unsubscribe_message ids]\<rparr>),
             subscriptions := subscriptions s - set ids\<rparr>)))"
  using assms by (simp add: unsubscribe_from_systems_def ws_send_open Let_def)

lemma issue_running:
  assumes "running s" and "websocket s = Some t" and "is_open t"
  shows "running (snd (issue c s)) \<and>
         (\<exists>t'. websocket (snd (issue c s)) = Some t' \<and> is_open t') \<and>
         subscriptions (snd (issue c s)) = tracked (subscriptions s) c"
  using assms by (cases c) (simp_all add: subscribe_running unsubscribe_running)

lemma frame_ref_message [simp]: "frame_ref (message ev payload ref) = JInt ref"
  by (simp add: frame_ref_def message_def)

subsection \<open>Connecting\<close>


lemma connect_sent:
  assumes "dial (socket_uri s) = Inr t" and "is_open t"
  shows "sent (snd (connect loads dial s)) = outbox t @ [join_message]"
  using assms
  by (auto simp: connect_def Let_def ws_send_def ws_recv_def connect_failed_def
      connect_joined_def sent_def split: list.splits option.splits sum.splits bool.splits)

text \<open>
  The other ways a join fails: the peer closes before replying, which leaves the session
  running as well, and the connection is never opened, which leaves the flag as it was.
\<close>

lemma connect_closed_before_reply:
  assumes "dial (socket_uri s) = Inr t" and "is_open t" and "inbox t = []"
  shows "fst (connect loads dial s) = Inl ConnectionClosed \<and>
         running (snd (connect loads dial s))"
  using assms
  by (simp add: connect_def Let_def ws_send_def ws_recv_def connect_failed_def)

lemma connect_open_failed:
  assumes "dial (socket_uri s) = Inl e"
  shows "fst (connect loads dial s) = Inl e \<and>
         running (snd (connect loads dial s)) = running s"
  using assms
  by (simp add: connect_def Let_def connect_failed_def)

text \<open>The session a rejected join leaves behind.\<close>

lemma connect_rejected_state:
  assumes "dial (socket_uri s) = Inr t" and "is_open t" and "inbox t = text # rest"
    and "loads text = Some response_data"
    and "join_accepted response_data = Inr False"
  shows "fst (connect loads dial s) = Inl (JoinFailed response_data)"
    and "running (snd (connect loads dial s))"
    and "websocket (snd (connect loads dial s)) =
           Some (t\<lparr>outbox := outbox t @ [join_message], inbox := rest\<rparr>)"
    and "subscriptions (snd (connect loads dial s)) = subscriptions s"
    and "subscription_id (snd (connect loads dial s)) = subscription_id s"
  using assms
  by (simp_all add: connect_def Let_def ws_send_def ws_recv_def connect_failed_def)

text \<open>A session joined from a fresh client is running on an open connection, with no keys.\<close>

lemma connect_establishes:
  assumes "connect loads dial (init url) = (Inr p, s)"
  shows "running s \<and> subscriptions s = {} \<and> (\<exists>t. websocket s = Some t \<and> is_open t)"
  using assms
  by (auto simp: connect_def Let_def ws_send_def ws_recv_def connect_failed_def
      connect_joined_def init_def
      split: list.splits option.splits sum.splits bool.splits if_splits)

subsection \<open>The example sessions\<close>

lemma init_localhost:
  "init ''http://localhost:4004'' =
     \<lparr>server_url = ''ws://localhost:4004'', websocket = None, subscriptions = {},
      subscription_id = JNull, running = False, logged = []\<rparr>"
  by (simp add: init_def)

lemma example_session_fields:
  "running example_session"
  "websocket example_session = Some \<lparr>is_open = True, outbox = [join_message], inbox = []\<rparr>"
  "subscriptions example_session = {}"
  "subscription_id example_session = JStr ''sub-1''"
  by (simp_all add: example_session_def init_localhost connect_def socket_uri_def mock_dial_def
      mock_loads_def ws_send_def ws_recv_def join_accepted_def connect_joined_def
      join_ok_reply_def logger_def Let_def)

lemma listening_session_fields:
  "running listening_session"
  "websocket listening_session =
     Some \<lparr>is_open = True, outbox = [join_message], inbox = [''garbage'', ''kill_count'']\<rparr>"
  by (simp_all add: listening_session_def init_localhost connect_def socket_uri_def
      mock_dial_def mock_loads_def ws_send_def ws_recv_def join_accepted_def
      connect_joined_def join_ok_reply_def logger_def Let_def)

subsection \<open>Disconnecting\<close>

lemma disconnect_result: "fst (disconnect s) = Inr ()" "\<not> running (snd (disconnect s))"
  by (simp_all add: disconnect_def Let_def split: option.splits sum.splits)

lemma disconnect_closes:
  "websocket (snd (disconnect s)) = None \<or>
   (\<exists>t. websocket (snd (disconnect s)) = Some t \<and> \<not> is_open t)"
  by (auto simp: disconnect_def Let_def ws_send_def ws_close_def split: option.splits)

lemma disconnect_closed_sent:
  "websocket s = None \<or> (\<exists>t. websocket s = Some t \<and> \<not> is_open t) \<Longrightarrow>
   sent (snd (disconnect s)) = sent s \<and> websocket (snd (disconnect s)) = websocket s"
  by (auto simp: disconnect_def Let_def ws_send_def sent_def split: option.splits)

section \<open>The properties\<close>

text \<open>
  C1. For every sequence of subscribe and unsubscribe calls issued on a running session whose
  connection is open, the tracked subscription set is the fold, in call order, of set union
  (subscribe) and set difference (unsubscribe) over the key lists, from the set the session
  started with; by \<open>connect_establishes\<close> that set is empty for a session just joined from a
  fresh client.
\<close>

theorem subscriptions_track_calls:
  assumes "running s" and "websocket s = Some t" and "is_open t"
  shows "subscriptions (issue_all calls s) = foldl tracked (subscriptions s) calls"
  using assms
proof (induction calls arbitrary: s t)
  case Nil
  show ?case by simp
next
  case (Cons c cs)
  from issue_running [OF Cons.prems, of c]
  obtain t' where r: "running (snd (issue c s))" "websocket (snd (issue c s)) = Some t'"
      "is_open t'"
    and k: "subscriptions (snd (issue c s)) = tracked (subscriptions s) c"
    by blast
  from Cons.IH [OF r] k show ?case by simp
qed

text \<open>The calls of \<open>example\<close> on the example session, which starts from the empty set.\<close>

theorem subscriptions_track_calls_witness:
  "running example_session \<and>
   websocket example_session = Some \<lparr>is_open = True, outbox = [join_message], inbox = []\<rparr> \<and>
   is_open \<lparr>is_open = True, outbox = [join_message], inbox = []\<rparr> \<and>
   subscriptions example_session = {} \<and>
   subscriptions
     (issue_all [Subscribe [30000142, 30002659, 30002187], Unsubscribe [30000142]]
        example_session) = {30002659, 30002187}"
proof -
  have o: "is_open \<lparr>is_open = True, outbox = [join_message], inbox = []\<rparr>"
    by simp
  show ?thesis
    using subscriptions_track_calls [OF example_session_fields(1) example_session_fields(2) o,
        of "[Subscribe [30000142, 30002659, 30002187], Unsubscribe [30000142]]"]
      example_session_fields
    by auto
qed

text \<open>
  C2. What \<open>connect\<close> does when the first reply is not an accepted join: it raises the error
  carrying the raw reply, and the session is left with \<open>running\<close> set and the connection
  kept, \<open>running\<close> having been set as soon as the connection opened.
\<close>

theorem connect_rejected_stays_running:
  assumes "dial (socket_uri s) = Inr t" and "is_open t" and "inbox t = text # rest"
    and "loads text = Some response_data"
    and "join_accepted response_data = Inr False"
  shows "fst (connect loads dial s) = Inl (JoinFailed response_data) \<and>
         running (snd (connect loads dial s)) \<and>
         websocket (snd (connect loads dial s)) =
           Some (t\<lparr>outbox := outbox t @ [join_message], inbox := rest\<rparr>)"
  using assms
  by (simp add: connect_def Let_def ws_send_def ws_recv_def connect_failed_def)

text \<open>A fresh client against a peer that answers the join with status \<open>error\<close>.\<close>

theorem connect_rejected_stays_running_witness:
  "mock_dial [''join_error''] (socket_uri (init ''http://localhost:4004'')) =
     Inr \<lparr>is_open = True, outbox = [], inbox = [''join_error'']\<rparr> \<and>
   mock_loads ''join_error'' = Some join_error_reply \<and>
   join_accepted join_error_reply = Inr False \<and>
   \<not> running (init ''http://localhost:4004'') \<and>
   fst (connect mock_loads (mock_dial [''join_error'']) (init ''http://localhost:4004'')) =
     Inl (JoinFailed join_error_reply) \<and>
   running (snd (connect mock_loads (mock_dial [''join_error''])
     (init ''http://localhost:4004'')))"
proof -
  let ?t = "\<lparr>is_open = True, outbox = [], inbox = [''join_error'']\<rparr>"
  have d: "mock_dial [''join_error''] (socket_uri (init ''http://localhost:4004'')) = Inr ?t"
    by (simp add: mock_dial_def)
  have l: "mock_loads ''join_error'' = Some join_error_reply"
    by (simp add: mock_loads_def)
  have o: "is_open ?t" and i: "inbox ?t = ''join_error'' # []"
    by simp_all
  have a: "join_accepted join_error_reply = Inr False"
    by (simp add: join_accepted_def join_error_reply_def)
  have n: "\<not> running (init ''http://localhost:4004'')"
    by (simp add: init_def)
  show ?thesis
    using connect_rejected_stays_running [where dial = "mock_dial [''join_error'']"
        and loads = mock_loads and s = "init ''http://localhost:4004''", OF d o i l a] d l a n
    by simp
qed

text \<open>
  C3, as the code has it. The \<open>ref\<close> of an outbound command frame is a constant fixed by the
  kind of command: 1 for the join, 2 for subscribe, 3 for unsubscribe, 4 for status, 5 for
  leave. Each command appends one frame with its constant to the frames sent.
\<close>

theorem refs_fixed_by_command:
  assumes "running s" and "websocket s = Some t" and "is_open t" and "is_open t'"
  shows "map frame_ref (sent (snd (connect loads (\<lambda>uri. Inr t') s))) =
           map frame_ref (outbox t') @ [JInt 1] \<and>
         map frame_ref (sent (snd (subscribe_to_systems ids s))) =
           map frame_ref (sent s) @ [JInt 2] \<and>
         map frame_ref (sent (snd (unsubscribe_from_systems ids s))) =
           map frame_ref (sent s) @ [JInt 3] \<and>
         map frame_ref (sent (snd (get_status s))) = map frame_ref (sent s) @ [JInt 4] \<and>
         map frame_ref (sent (snd (disconnect s))) = map frame_ref (sent s) @ [JInt 5]"
proof -
  have c: "sent (snd (connect loads (\<lambda>uri. Inr t') s)) = outbox t' @ [join_message]"
    using assms(4) by (simp add: connect_sent)
  have g: "sent (snd (get_status s)) = sent s @ [status_message]"
    using assms by (simp add: get_status_def ws_send_def sent_def Let_def)
  have d: "sent (snd (disconnect s)) = sent s @ [leave_message]"
    using assms by (simp add: disconnect_def ws_send_def ws_close_def sent_def Let_def)
  show ?thesis
    using assms c g d
    by (simp add: subscribe_running unsubscribe_running sent_def join_message_def
        subscribe_message_def unsubscribe_message_def status_message_def leave_message_def)
qed

theorem refs_fixed_by_command_witness:
  "running example_session \<and>
   websocket example_session = Some \<lparr>is_open = True, outbox = [join_message], inbox = []\<rparr> \<and>
   is_open \<lparr>is_open = True, outbox = [join_message], inbox = []\<rparr> \<and>
   is_open \<lparr>is_open = True, outbox = [], inbox = [''join_ok'']\<rparr> \<and>
   map frame_ref (sent (snd (connect mock_loads
       (\<lambda>uri. Inr \<lparr>is_open = True, outbox = [], inbox = [''join_ok'']\<rparr>) example_session))) =
     [JInt 1] \<and>
   map frame_ref (sent (snd (subscribe_to_systems [30000142] example_session))) =
     [JInt 1, JInt 2] \<and>
   map frame_ref (sent (snd (unsubscribe_from_systems [30000142] example_session))) =
     [JInt 1, JInt 3] \<and>
   map frame_ref (sent (snd (get_status example_session))) = [JInt 1, JInt 4] \<and>
   map frame_ref (sent (snd (disconnect example_session))) = [JInt 1, JInt 5]"
proof -
  have o: "is_open \<lparr>is_open = True, outbox = [join_message], inbox = []\<rparr>"
    and o': "is_open \<lparr>is_open = True, outbox = [], inbox = [''join_ok'']\<rparr>"
    by simp_all
  have s: "map frame_ref (sent example_session) = [JInt 1]"
    by (simp add: sent_def example_session_fields join_message_def)
  show ?thesis
    using refs_fixed_by_command [OF example_session_fields(1) example_session_fields(2) o o',
        of mock_loads "[30000142]"] example_session_fields s
    by simp
qed

text \<open>
  Two subscribe calls on the example session: both frames carry \<open>ref\<close> 2, so the refs sent
  on the connection are neither distinct nor increasing.
\<close>

theorem refs_repeat_counterexample:
  "map frame_ref
     (sent (issue_all [Subscribe [30000142], Subscribe [30002659]] example_session)) =
     [JInt 1, JInt 2, JInt 2] \<and>
   \<not> distinct (map frame_ref
     (sent (issue_all [Subscribe [30000142], Subscribe [30002659]] example_session)))"
  by (simp add: subscribe_running example_session_fields sent_def join_message_def
      subscribe_message_def)

text \<open>
  The guard of the three commands: with no connection or with \<open>running\<close> unset they fail
  with \<open>NotConnected\<close> for every key list and return the session as it was, so that no
  frame is sent and the subscription set is unchanged. A client that never dialled is such a
  session.
\<close>

lemma commands_need_connection:
  assumes "websocket s = None \<or> \<not> running s"
  shows "subscribe_to_systems ids s = (Inl NotConnected, s) \<and>
         unsubscribe_from_systems ids s = (Inl NotConnected, s) \<and>
         get_status s = (Inl NotConnected, s)"
  using assms
  by (auto simp: subscribe_to_systems_def unsubscribe_from_systems_def get_status_def
      split: option.splits)

lemma commands_need_connection_fresh:
  "subscribe_to_systems [30000142] (init ''http://localhost:4004'') =
     (Inl NotConnected, init ''http://localhost:4004'') \<and>
   unsubscribe_from_systems [30000142] (init ''http://localhost:4004'') =
     (Inl NotConnected, init ''http://localhost:4004'') \<and>
   get_status (init ''http://localhost:4004'') =
     (Inl NotConnected, init ''http://localhost:4004'') \<and>
   sent (init ''http://localhost:4004'') = []"
proof -
  have h: "websocket (init ''http://localhost:4004'') = None \<or>
      \<not> running (init ''http://localhost:4004'')"
    by (simp add: init_def)
  show ?thesis
    using commands_need_connection [OF h, of "[30000142]"]
    by (simp add: sent_def init_def)
qed

text \<open>
  C4. The commands issued after a \<open>connect\<close> that did not succeed. When the connection
  opened and the join was rejected, \<open>connect\<close> raises, yet for every key list
  \<open>subscribe_to_systems\<close>, \<open>unsubscribe_from_systems\<close> and \<open>get_status\<close> then return
  normally instead of failing with \<open>NotConnected\<close>: each sends its frame after the join
  frame, and the first two change the subscription set.
\<close>

theorem commands_pass_after_rejected_join:
  assumes "dial (socket_uri s) = Inr t" and "is_open t" and "inbox t = text # rest"
    and "loads text = Some response_data"
    and "join_accepted response_data = Inr False"
  shows "fst (connect loads dial s) = Inl (JoinFailed response_data) \<and>
         fst (subscribe_to_systems ids (snd (connect loads dial s))) =
           Inr (subscriptions s \<union> set ids) \<and>
         sent (snd (subscribe_to_systems ids (snd (connect loads dial s)))) =
           outbox t @ [join_message, subscribe_message ids] \<and>
         subscriptions (snd (subscribe_to_systems ids (snd (connect loads dial s)))) =
           subscriptions s \<union> set ids \<and>
         fst (unsubscribe_from_systems ids (snd (connect loads dial s))) =
           Inr (subscriptions s - set ids) \<and>
         sent (snd (unsubscribe_from_systems ids (snd (connect loads dial s)))) =
           outbox t @ [join_message, unsubscribe_message ids] \<and>
         fst (get_status (snd (connect loads dial s))) =
           Inr (subscription_id s, subscriptions s, True) \<and>
         sent (snd (get_status (snd (connect loads dial s)))) =
           outbox t @ [join_message, status_message]"
proof -
  let ?t = "t\<lparr>outbox := outbox t @ [join_message], inbox := rest\<rparr>"
  let ?s = "snd (connect loads dial s)"
  note st = connect_rejected_state [where loads = loads and dial = dial, OF assms]
  have c: "fst (connect loads dial s) = Inl (JoinFailed response_data)"
    and r: "running ?s" and w: "websocket ?s = Some ?t"
    and k: "subscriptions ?s = subscriptions s" and i: "subscription_id ?s = subscription_id s"
    using st by simp_all
  have o: "is_open ?t"
    using assms(2) by simp
  have g: "get_status ?s =
      (Inr (subscription_id s, subscriptions s, True),
       ?s\<lparr>websocket := Some (?t\<lparr>outbox := outbox ?t @ [status_message]\<rparr>)\<rparr>)"
    using r w o k i by (simp add: get_status_def ws_send_def Let_def)
  show ?thesis
    using c k g
    by (simp add: subscribe_running [OF r w o] unsubscribe_running [OF r w o] sent_def)
qed

text \<open>
  A fresh client whose join is answered with status \<open>error\<close>, then a subscribe and a
  status call.
\<close>

theorem commands_pass_after_rejected_join_witness:
  "mock_dial [''join_error''] (socket_uri (init ''http://localhost:4004'')) =
     Inr \<lparr>is_open = True, outbox = [], inbox = [''join_error'']\<rparr> \<and>
   mock_loads ''join_error'' = Some join_error_reply \<and>
   join_accepted join_error_reply = Inr False \<and>
   fst (connect mock_loads (mock_dial [''join_error'']) (init ''http://localhost:4004'')) =
     Inl (JoinFailed join_error_reply) \<and>
   fst (subscribe_to_systems [30000142]
     (snd (connect mock_loads (mock_dial [''join_error'']) (init ''http://localhost:4004'')))) =
     Inr {30000142} \<and>
   sent (snd (subscribe_to_systems [30000142]
     (snd (connect mock_loads (mock_dial [''join_error'']) (init ''http://localhost:4004''))))) =
     [join_message, subscribe_message [30000142]] \<and>
   fst (get_status
     (snd (connect mock_loads (mock_dial [''join_error'']) (init ''http://localhost:4004'')))) =
     Inr (JNull, {}, True)"
proof -
  let ?t = "\<lparr>is_open = True, outbox = [], inbox = [''join_error'']\<rparr>"
  have d: "mock_dial [''join_error''] (socket_uri (init ''http://localhost:4004'')) = Inr ?t"
    by (simp add: mock_dial_def)
  have l: "mock_loads ''join_error'' = Some join_error_reply"
    by (simp add: mock_loads_def)
  have o: "is_open ?t" and i: "inbox ?t = ''join_error'' # []"
    by simp_all
  have a: "join_accepted join_error_reply = Inr False"
    by (simp add: join_accepted_def join_error_reply_def)
  have n: "subscriptions (init ''http://localhost:4004'') = {}"
    "subscription_id (init ''http://localhost:4004'') = JNull"
    by (simp_all add: init_def)
  show ?thesis
    using commands_pass_after_rejected_join [where dial = "mock_dial [''join_error'']"
        and loads = mock_loads and s = "init ''http://localhost:4004''"
        and ids = "[30000142]", OF d o i l a] d l a n
    by simp
qed



text \<open>
  C6. On a running session with an open connection, when a frame that does not decode precedes
  a frame that decodes to a \<open>kill_count_update\<close> with a payload dict, the receive loop logs the
  decode failure, goes on, and later logs the update with the payload's \<open>system_id\<close> and
  \<open>count\<close>; the subscription set and the subscription identifier are as before the loop.
\<close>

theorem malformed_frame_is_skipped:
  assumes "running s" and "websocket s = Some t" and "is_open t"
    and "inbox t = pre @ bad # mid @ good # post"
    and "loads bad = None"
    and "loads good = Some (JObj kvs)"
    and "map_of kvs ''event'' = Some (JStr ''kill_count_update'')"
    and "map_of kvs ''payload'' = Some (JObj pl)"
  shows "(\<exists>a b c. logged (listen_for_messages loads s) =
            logged s @ a @ (ERROR, DecodeFailed (JSONDecodeError bad)) # b @
              (INFO, KillCountUpdate
                       (case map_of pl ''system_id'' of None \<Rightarrow> JNull | Some v \<Rightarrow> v)
                       (case map_of pl ''count'' of None \<Rightarrow> JNull | Some v \<Rightarrow> v)) # c) \<and>
         subscriptions (listen_for_messages loads s) = subscriptions s \<and>
         subscription_id (listen_for_messages loads s) = subscription_id s"
proof -
  let ?err = "(ERROR, DecodeFailed (JSONDecodeError bad))"
  let ?upd = "(INFO, KillCountUpdate
                       (case map_of pl ''system_id'' of None \<Rightarrow> JNull | Some v \<Rightarrow> v)
                       (case map_of pl ''count'' of None \<Rightarrow> JNull | Some v \<Rightarrow> v))"
  let ?t1 = "t\<lparr>inbox := bad # mid @ good # post\<rparr>"
  let ?t2 = "t\<lparr>inbox := mid @ good # post\<rparr>"
  let ?t3 = "t\<lparr>inbox := good # post\<rparr>"
  let ?t4 = "t\<lparr>inbox := post\<rparr>"
  from listen_skip [OF assms(1,2,3) assms(4), of loads]
  obtain s1 where s1: "listen_loop loads s = listen_loop loads s1" "running s1"
    "websocket s1 = Some ?t1"
    "subscriptions s1 = subscriptions s" "subscription_id s1 = subscription_id s"
    "prefix (logged s) (logged s1)"
    by blast
  define s2 where "s2 = logger ERROR (DecodeFailed (JSONDecodeError bad)) (s1\<lparr>websocket := Some ?t2\<rparr>)"
  have o1: "is_open ?t1" "inbox ?t1 = bad # (mid @ good # post)"
    using assms(3) by simp_all
  have e2: "listen_loop loads s1 = listen_loop loads s2"
    using listen_step_malformed [where loads = loads, OF s1(2) s1(3) o1 assms(5)]
    by (simp add: s2_def)
  have f2: "running s2" "websocket s2 = Some ?t2" "subscriptions s2 = subscriptions s"
    "subscription_id s2 = subscription_id s" "logged s2 = logged s1 @ [?err]"
    using s1 by (simp_all add: s2_def logger_def)
  have o2: "is_open ?t2" "inbox ?t2 = mid @ (good # post)"
    using assms(3) by simp_all
  from listen_skip [OF f2(1) f2(2) o2, of loads]
  obtain s3 where s3: "listen_loop loads s2 = listen_loop loads s3" "running s3"
    "websocket s3 = Some ?t3"
    "subscriptions s3 = subscriptions s2" "subscription_id s3 = subscription_id s2"
    "prefix (logged s2) (logged s3)"
    by auto
  define s4 where "s4 = logger INFO (snd ?upd) (s3\<lparr>websocket := Some ?t4\<rparr>)"
  have o3: "is_open ?t3" "inbox ?t3 = good # post"
    using assms(3) by simp_all
  have e4: "listen_loop loads s3 = listen_loop loads s4"
    using listen_step_kill_count [where loads = loads, OF s3(2) s3(3) o3 assms(6,7,8)]
    by (simp add: s4_def)
  have f4: "running s4" "websocket s4 = Some ?t4" "subscriptions s4 = subscriptions s"
    "subscription_id s4 = subscription_id s" "logged s4 = logged s3 @ [?upd]"
    using s3 f2 by (simp_all add: s4_def logger_def)
  have o4: "is_open ?t4"
    using assms(3) by simp
  from listen_loop_logged [OF f4(1) f4(2) o4, of loads]
  have f5: "prefix (logged s4) (logged (listen_loop loads s4))"
    "subscriptions (listen_loop loads s4) = subscriptions s"
    "subscription_id (listen_loop loads s4) = subscription_id s"
    using f4 by simp_all
  have eq: "listen_loop loads s = listen_loop loads s4"
    using s1(1) e2 s3(1) e4 by simp
  obtain a where a: "logged s1 = logged s @ a"
    using s1(6) by (auto simp: prefix_def)
  obtain b where b: "logged s3 = logged s2 @ b"
    using s3(6) by (auto simp: prefix_def)
  obtain c where c: "logged (listen_loop loads s4) = logged s4 @ c"
    using f5(1) by (auto simp: prefix_def)
  have "logged (listen_for_messages loads s) = logged s @ a @ ?err # b @ ?upd # c"
    using eq a b c f2(5) f4(5) by (simp add: listen_for_messages_def)
  then show ?thesis
    using eq f5 by (auto simp: listen_for_messages_def)
qed

text \<open>The peer delivers a frame that does not decode, then the update of the example scenario.\<close>

theorem malformed_frame_is_skipped_witness:
  "running listening_session \<and>
   websocket listening_session =
     Some \<lparr>is_open = True, outbox = [join_message], inbox = [''garbage'', ''kill_count'']\<rparr> \<and>
   mock_loads ''garbage'' = None \<and>
   mock_loads ''kill_count'' = Some kill_count_frame \<and>
   (\<exists>a b c. logged (listen_for_messages mock_loads listening_session) =
      logged listening_session @ a @ (ERROR, DecodeFailed (JSONDecodeError ''garbage'')) # b @
        (INFO, KillCountUpdate (JInt 30000142) (JInt 3)) # c)"
proof -
  let ?t = "\<lparr>is_open = True, outbox = [join_message], inbox = [''garbage'', ''kill_count'']\<rparr>"
  let ?kvs = "[(''topic'', JStr ''killmails:lobby''), (''event'', JStr ''kill_count_update''),
           (''payload'', JObj [(''system_id'', JInt 30000142), (''count'', JInt 3)]),
           (''ref'', JNull)]"
  let ?pl = "[(''system_id'', JInt 30000142), (''count'', JInt 3)]"
  have o: "is_open ?t" and i: "inbox ?t = [] @ ''garbage'' # [] @ ''kill_count'' # []"
    by simp_all
  have b: "mock_loads ''garbage'' = None"
    and g: "mock_loads ''kill_count'' = Some (JObj ?kvs)"
    by (simp_all add: mock_loads_def kill_count_frame_def)
  have e: "map_of ?kvs ''event'' = Some (JStr ''kill_count_update'')"
    and p: "map_of ?kvs ''payload'' = Some (JObj ?pl)"
    by simp_all
  show ?thesis
    using malformed_frame_is_skipped [where loads = mock_loads,
        OF listening_session_fields(1) listening_session_fields(2) o i b g e p]
      listening_session_fields b g
    by (simp add: kill_count_frame_def)
qed

text \<open>
  C7. In every session state \<open>disconnect\<close> returns without an error and leaves \<open>running\<close>
  unset, and so does a second \<open>disconnect\<close> after it; the second call finds the connection
  closed and adds no frame to those sent.
\<close>

theorem disconnect_safe_twice:
  "fst (disconnect s) = Inr () \<and>
   \<not> running (snd (disconnect s)) \<and>
   fst (disconnect (snd (disconnect s))) = Inr () \<and>
   \<not> running (snd (disconnect (snd (disconnect s)))) \<and>
   sent (snd (disconnect (snd (disconnect s)))) = sent (snd (disconnect s))"
  using disconnect_closed_sent [OF disconnect_closes [of s]]
  by (simp add: disconnect_result)

text \<open>On the example session one leave frame is sent, by the first call.\<close>

theorem disconnect_safe_twice_witness:
  "fst (disconnect example_session) = Inr () \<and>
   \<not> running (snd (disconnect example_session)) \<and>
   fst (disconnect (snd (disconnect example_session))) = Inr () \<and>
   sent (snd (disconnect example_session)) = [join_message, leave_message] \<and>
   sent (snd (disconnect (snd (disconnect example_session)))) = [join_message, leave_message]"
proof -
  have "sent (snd (disconnect example_session)) = [join_message, leave_message]"
    by (simp add: disconnect_def Let_def example_session_fields ws_send_def ws_close_def
        sent_def)
  then show ?thesis
    using disconnect_safe_twice [of example_session] by simp
qed

text \<open>
  C8. On a running session with an open connection, \<open>subscribe_to_systems\<close> sends one
  \<open>subscribe_systems\<close> frame whose payload carries exactly the given keys, adds the keys to the
  subscription set without reading any frame from the connection, and returns the resulting
  set.
\<close>

theorem subscribe_sends_and_tracks:
  assumes "running s" and "websocket s = Some t" and "is_open t"
  shows "fst (subscribe_to_systems ids s) = Inr (subscriptions s \<union> set ids) \<and>
         subscriptions (snd (subscribe_to_systems ids s)) = subscriptions s \<union> set ids \<and>
         websocket (snd (subscribe_to_systems ids s)) =
           Some (t\<lparr>outbox := outbox t @
              [JObj [(''topic'', JStr ''killmails:lobby''), (''event'', JStr ''subscribe_systems''),
                     (''payload'', JObj [(''systems'', JList (map JInt ids))]),
                     (''ref'', JInt 2)]]\<rparr>) \<and>
         running (snd (subscribe_to_systems ids s))"
  using assms by (simp add: subscribe_running subscribe_message_def message_def)

theorem subscribe_sends_and_tracks_witness:
  "running example_session \<and>
   websocket example_session = Some \<lparr>is_open = True, outbox = [join_message], inbox = []\<rparr> \<and>
   is_open \<lparr>is_open = True, outbox = [join_message], inbox = []\<rparr> \<and>
   fst (subscribe_to_systems [30000142, 30002659] example_session) = Inr {30000142, 30002659} \<and>
   sent (snd (subscribe_to_systems [30000142, 30002659] example_session)) =
     [join_message, subscribe_message [30000142, 30002659]]"
proof -
  have o: "is_open \<lparr>is_open = True, outbox = [join_message], inbox = []\<rparr>"
    by simp
  show ?thesis
    using subscribe_sends_and_tracks [OF example_session_fields(1) example_session_fields(2) o,
        of "[30000142, 30002659]"] example_session_fields
    by (auto simp: sent_def subscribe_message_def message_def)
qed

text \<open>
  C9. On a running session with an open connection, subscribing twice with the same key list
  gives the same subscription set as subscribing once, key lists with the same elements
  (duplicates included) give the same set, and unsubscribing keys that are not in the set
  succeeds and leaves the set as it was.
\<close>

theorem subscribe_idempotent:
  assumes "running s" and "websocket s = Some t" and "is_open t"
  shows "subscriptions (snd (subscribe_to_systems ids (snd (subscribe_to_systems ids s)))) =
           subscriptions (snd (subscribe_to_systems ids s)) \<and>
         (set ids' = set ids \<longrightarrow>
            subscriptions (snd (subscribe_to_systems ids' s)) =
              subscriptions (snd (subscribe_to_systems ids s))) \<and>
         (set ids \<inter> subscriptions s = {} \<longrightarrow>
            fst (unsubscribe_from_systems ids s) = Inr (subscriptions s) \<and>
            subscriptions (snd (unsubscribe_from_systems ids s)) = subscriptions s)"
proof -
  let ?s1 = "snd (subscribe_to_systems ids s)"
  have r: "running ?s1"
    "websocket ?s1 = Some (t\<lparr>outbox := outbox t @ [subscribe_message ids]\<rparr>)"
    "is_open (t\<lparr>outbox := outbox t @ [subscribe_message ids]\<rparr>)"
    using assms by (simp_all add: subscribe_running)
  have k: "subscriptions ?s1 = subscriptions s \<union> set ids"
    by (simp add: subscribe_running [OF assms])
  have "subscriptions (snd (subscribe_to_systems ids ?s1)) = subscriptions ?s1 \<union> set ids"
    using subscribe_running [OF r, of ids] by simp
  with k have a: "subscriptions (snd (subscribe_to_systems ids ?s1)) = subscriptions ?s1"
    by auto
  have b: "set ids' = set ids \<longrightarrow>
            subscriptions (snd (subscribe_to_systems ids' s)) = subscriptions ?s1"
    by (simp add: subscribe_running [OF assms])
  have c: "set ids \<inter> subscriptions s = {} \<longrightarrow>
            fst (unsubscribe_from_systems ids s) = Inr (subscriptions s) \<and>
            subscriptions (snd (unsubscribe_from_systems ids s)) = subscriptions s"
    by (auto simp: unsubscribe_running [OF assms])
  from a b c show ?thesis by blast
qed

theorem subscribe_idempotent_witness:
  "running example_session \<and>
   websocket example_session = Some \<lparr>is_open = True, outbox = [join_message], inbox = []\<rparr> \<and>
   is_open \<lparr>is_open = True, outbox = [join_message], inbox = []\<rparr> \<and>
   set [30000142, 30000142] = set [30000142::int] \<and>
   set [30000142] \<inter> subscriptions example_session = {} \<and>
   subscriptions (snd (subscribe_to_systems [30000142]
       (snd (subscribe_to_systems [30000142] example_session)))) =
     subscriptions (snd (subscribe_to_systems [30000142] example_session)) \<and>
   subscriptions (snd (subscribe_to_systems [30000142, 30000142] example_session)) =
     subscriptions (snd (subscribe_to_systems [30000142] example_session)) \<and>
   fst (unsubscribe_from_systems [30000142] example_session) = Inr {}"
proof -
  have o: "is_open \<lparr>is_open = True, outbox = [join_message], inbox = []\<rparr>"
    by simp
  show ?thesis
    using subscribe_idempotent [OF example_session_fields(1) example_session_fields(2) o,
        of "[30000142]" "[30000142, 30000142]"] example_session_fields
    by simp
qed

text \<open>
  C10. Handling one inbound message, whatever its event and whether or not the handler raises,
  leaves the subscription set, the subscription identifier, the \<open>running\<close> flag and the
  connection as they were.
\<close>

theorem handle_message_keeps_session:
  "subscriptions (snd (handle_message msg s)) = subscriptions s \<and>
   subscription_id (snd (handle_message msg s)) = subscription_id s \<and>
   running (snd (handle_message msg s)) = running s \<and>
   websocket (snd (handle_message msg s)) = websocket s"
  using handle_message_only_logs [of s msg] by (simp add: only_logs_def)

theorem handle_message_keeps_session_witness:
  "subscriptions (snd (handle_message kill_count_frame example_session)) = {} \<and>
   subscription_id (snd (handle_message kill_count_frame example_session)) = JStr ''sub-1'' \<and>
   running (snd (handle_message kill_count_frame example_session))"
  using handle_message_keeps_session [of kill_count_frame example_session]
    example_session_fields
  by simp

end
